theory Spec2Isabelle
  imports Main "HOL-Library.Word"
begin

section \<open>The native support layer of the 64-bit runtime (runtime64_specific.cpp)\<close>

text \<open>
  The file is a flat set of C entry points over process-wide and thread-local state.
  The model passes that state explicitly. Thread-local variables are functions of
  the calling thread, the standard streams are values holding what they have left to
  deliver or have been given, and the C heap counts the blocks that are live.
  A call ends in one of three ways: it returns, it leaves by the C++ exception
  \<open>skip::SkipException\<close>, or its behaviour is undefined in C++.
\<close>

subsection \<open>Machine types\<close>

type_synonym byte = "8 word"
type_synonym u32 = "32 word"
type_synonym size_t = nat
type_synonym ptr = "64 word"
type_synonym tid = nat

text \<open>The bytes of a character string, for writing examples.\<close>

definition bytes :: "string \<Rightarrow> byte list" where
  "bytes s = map of_char s"

text \<open>
  What the translation unit takes from its surroundings: whether plain \<open>char\<close> is a
  signed type (it is on x86-64, it is not on AArch64 Linux), and the exception value
  that the compiled layer raises for end of file.
\<close>

record env =
  char_signed :: bool
  end_of_file :: ptr

subsection \<open>Standard input: \<open>std::cin\<close>\<close>

text \<open>
  The stream holds the bytes not yet extracted; after the last of them comes end of
  file. The three flags are the stream's \<open>iostate\<close>.
\<close>

record istream =
  pending :: "byte list"
  eofbit :: bool
  failbit :: bool
  badbit :: bool

definition good :: "istream \<Rightarrow> bool" where
  "good s = (\<not> eofbit s \<and> \<not> failbit s \<and> \<not> badbit s)"

definition fail :: "istream \<Rightarrow> bool" where
  "fail s = (failbit s \<or> badbit s)"

text \<open>
  The extraction loop of \<open>std::getline\<close>: characters are appended to the string
  until end of file, or until the delimiter, which is extracted and dropped. The result
  is the string, the input left, the number of characters extracted, and whether end
  of file was met.
\<close>

fun getline_loop :: "byte list \<Rightarrow> byte list \<Rightarrow> nat \<Rightarrow> byte list \<times> byte list \<times> nat \<times> bool" where
  "getline_loop [] str n = (str, [], n, True)"
| "getline_loop (c # cs) str n =
     (if c = 0x0A then (str, cs, Suc n, False) else getline_loop cs (str @ [c]) (Suc n))"

text \<open>
  \<open>std::getline(is, str)\<close>. The sentry fails on a stream that is not good: the
  string is left as it was and \<open>failbit\<close> is set. Otherwise the string is erased
  and filled by the loop; \<open>eofbit\<close> is set when end of file was met, \<open>failbit\<close>
  when nothing at all was extracted. A \<open>std::string\<close> holds any line here: the
  model has no \<open>max_size\<close>.
\<close>

definition getline :: "istream \<Rightarrow> byte list \<Rightarrow> istream \<times> byte list" where
  "getline is str =
     (if \<not> good is then (is\<lparr>failbit := True\<rparr>, str)
      else case getline_loop (pending is) [] 0 of
        (str', rest, extracted, eof) \<Rightarrow>
          (is\<lparr>pending := rest, eofbit := eof, failbit := (extracted = 0)\<rparr>, str'))"

subsection \<open>Output streams: \<open>FILE*\<close>\<close>

text \<open>
  An output stream holds the bytes written to it so far. A stream that is
  \<open>failing\<close> takes no byte: the write reports an error, which none of the routines
  reads.
\<close>

record ostream =
  written :: "byte list"
  failing :: bool

datatype descr = Stdout | Stderr

definition fwrite :: "ostream \<Rightarrow> byte list \<Rightarrow> ostream" where
  "fwrite f bs = (if failing f then f else f\<lparr>written := written f @ bs\<rparr>)"

text \<open>\<open>fprintf(f, "%c", x)\<close>: the argument is converted to \<open>unsigned char\<close> and written.\<close>

definition fprintf_c :: "ostream \<Rightarrow> u32 \<Rightarrow> ostream" where
  "fprintf_c f x = fwrite f [ucast x]"

text \<open>\<open>fprintf(f, "%s", buffer)\<close>: the bytes of the buffer before its first zero byte.\<close>

definition fprintf_s :: "ostream \<Rightarrow> byte list \<Rightarrow> ostream" where
  "fprintf_s f buffer = fwrite f (takeWhile (\<lambda>c. c \<noteq> 0) buffer)"

subsection \<open>The C heap\<close>

text \<open>
  The heap lists the live blocks with their sizes, and has \<open>avail\<close> bytes left to
  give. A fresh block holds \<open>junk\<close>. \<open>malloc\<close> returns no block when the request
  exceeds what is left.
\<close>

record heap =
  blocks :: "(nat \<times> nat) list"
  avail :: nat
  junk :: byte

definition fresh :: "heap \<Rightarrow> nat" where
  "fresh h = Suc (foldr max (map fst (blocks h)) 0)"

definition malloc :: "size_t \<Rightarrow> heap \<Rightarrow> (nat \<times> byte list \<times> heap) option" where
  "malloc n h =
     (if n \<le> avail h
      then Some (fresh h, replicate n (junk h),
                 h\<lparr>blocks := (fresh h, n) # blocks h, avail := avail h - n\<rparr>)
      else None)"

text \<open>\<open>free(p)\<close>: nothing for the null pointer, undefined for a pointer that is not live.\<close>

definition free :: "nat \<Rightarrow> heap \<Rightarrow> heap option" where
  "free p h =
     (if p = 0 then Some h
      else case map_of (blocks h) p of
        None \<Rightarrow> None
      | Some n \<Rightarrow> Some (h\<lparr>blocks := filter (\<lambda>b. fst b \<noteq> p) (blocks h), avail := avail h + n\<rparr>))"

definition memcpy :: "byte list \<Rightarrow> byte list \<Rightarrow> size_t \<Rightarrow> byte list" where
  "memcpy dst src n = take n src @ drop n dst"

text \<open>\<open>strlen\<close> of the memory at a pointer; undefined when no zero byte ends it.\<close>

definition strlen :: "byte list \<Rightarrow> size_t option" where
  "strlen buf = (if 0 \<in> set buf then Some (length (takeWhile (\<lambda>c. c \<noteq> 0) buf)) else None)"

subsection \<open>The state of the process\<close>

text \<open>
  \<open>argc\<close> and \<open>argv\<close> are the static variables of lines 65 and 66, \<open>exn\<close> and
  \<open>lineBuffer\<close> the thread-local ones of lines 51 and 37. An entry of \<open>argv\<close> is
  the memory its pointer leads to, terminating zero byte included.
\<close>

record state =
  argc :: int
  argv :: "byte list list"
  exn :: "tid \<Rightarrow> ptr"
  lineBuffer :: "tid \<Rightarrow> byte list"
  cin :: istream
  stdout :: ostream
  stderr :: ostream
  cheap :: heap

datatype 'a outcome = Returns 'a state | Throws ptr state | Undefined

definition stream_of :: "descr \<Rightarrow> state \<Rightarrow> ostream" where
  "stream_of d st = (case d of Stdout \<Rightarrow> stdout st | Stderr \<Rightarrow> stderr st)"

definition stream_upd :: "descr \<Rightarrow> ostream \<Rightarrow> state \<Rightarrow> state" where
  "stream_upd d f st = (case d of Stdout \<Rightarrow> st\<lparr>stdout := f\<rparr> | Stderr \<Rightarrow> st\<lparr>stderr := f\<rparr>)"

text \<open>
  The state in which a process starts, with \<open>input\<close> waiting on standard input: the
  static and thread-local variables hold their initialisers.
\<close>

definition startup :: "byte list \<Rightarrow> state" where
  "startup input =
     \<lparr>argc = 0, argv = [], exn = (\<lambda>t. 0), lineBuffer = (\<lambda>t. []),
      cin = \<lparr>pending = input, eofbit = False, failbit = False, badbit = False\<rparr>,
      stdout = \<lparr>written = [], failing = False\<rparr>,
      stderr = \<lparr>written = [], failing = False\<rparr>,
      cheap = \<lparr>blocks = [], avail = 2 ^ 40, junk = 0xAA\<rparr>\<rparr>"

subsection \<open>The contracts of the compiled layer\<close>

text \<open>
  Modelled from the spec: \<open>SKIP_String_byteSize\<close>, the length accessor of a runtime
  string, is only declared in the source. A runtime string is its bytes; the accessor
  returns their number as a 32-bit value.
\<close>

definition SKIP_String_byteSize :: "byte list \<Rightarrow> u32" where
  "SKIP_String_byteSize str = of_nat (length str)"

text \<open>
  Modelled from the spec: \<open>sk_string_create\<close>, the construction accessor, is only
  declared in the source. It produces a runtime string that copies \<open>buffer[0..size)\<close>.
\<close>

definition sk_string_create :: "byte list \<Rightarrow> u32 \<Rightarrow> byte list" where
  "sk_string_create buffer sz = take (unat sz) buffer"

subsection \<open>The entry points\<close>

definition SKIP_print_char :: "u32 \<Rightarrow> state \<Rightarrow> state" where
  "SKIP_print_char x st = st\<lparr>stdout := fprintf_c (stdout st) x\<rparr>"

definition SKIP_throw :: "ptr \<Rightarrow> state \<Rightarrow> 'a outcome" where
  "SKIP_throw exc st = Throws exc st"

text \<open>
  Modelled from the spec: \<open>SKIP_throw_EndOfFile\<close> is only declared in the source. It
  is the end-of-stream signal-raising operation of the compiled layer, which raises
  its end-of-file value through \<open>SKIP_throw\<close>.
\<close>

definition SKIP_throw_EndOfFile :: "env \<Rightarrow> state \<Rightarrow> unit outcome" where
  "SKIP_throw_EndOfFile e st = SKIP_throw (end_of_file e) st"

definition SKIP_read_line_fill :: "env \<Rightarrow> tid \<Rightarrow> state \<Rightarrow> u32 outcome" where
  "SKIP_read_line_fill e t st =
     (case getline (cin st) (lineBuffer st t) of
        (is, buf) \<Rightarrow>
          let st1 = st\<lparr>cin := is, lineBuffer := (lineBuffer st)(t := buf)\<rparr> in
          if fail is
          then (case SKIP_throw_EndOfFile e st1 of
                  Returns u st2 \<Rightarrow> Returns (of_nat (length (lineBuffer st2 t))) st2
                | Throws x st2 \<Rightarrow> Throws x st2
                | Undefined \<Rightarrow> Undefined)
          else Returns (of_nat (length buf)) st1)"

text \<open>
  The conversion of a \<open>char\<close> to \<open>uint32_t\<close>: the value of the \<open>char\<close> modulo
  \<open>2 ^ 32\<close>, so a signed \<open>char\<close> is sign-extended.
\<close>

definition char_to_uint32 :: "env \<Rightarrow> byte \<Rightarrow> u32" where
  "char_to_uint32 e c = (if char_signed e then scast c else ucast c)"

text \<open>
  \<open>lineBuffer[i]\<close>: the character at \<open>i\<close>, the zero character at \<open>i = size()\<close>,
  undefined beyond.
\<close>

definition SKIP_read_line_get :: "env \<Rightarrow> tid \<Rightarrow> u32 \<Rightarrow> state \<Rightarrow> u32 outcome" where
  "SKIP_read_line_get e t i st =
     (let buf = lineBuffer st t in
      if unat i < length buf then Returns (char_to_uint32 e (buf ! unat i)) st
      else if unat i = length buf then Returns (char_to_uint32 e 0) st
      else Undefined)"

definition SKIP_getExn :: "tid \<Rightarrow> state \<Rightarrow> ptr" where
  "SKIP_getExn t st = exn st t"

definition SKIP_saveExn :: "tid \<Rightarrow> ptr \<Rightarrow> state \<Rightarrow> state" where
  "SKIP_saveExn t e st = st\<lparr>exn := (exn st)(t := e)\<rparr>"

definition free_size :: "nat \<Rightarrow> size_t \<Rightarrow> state \<Rightarrow> unit outcome" where
  "free_size p sz st =
     (case free p (cheap st) of None \<Rightarrow> Undefined | Some h \<Rightarrow> Returns () (st\<lparr>cheap := h\<rparr>))"

definition SKIP_getArgc :: "state \<Rightarrow> u32" where
  "SKIP_getArgc st = of_int (argc st - 1)"

text \<open>
  \<open>argv[n]\<close> is read after \<open>n = n + 1\<close> in 32 bits. Beyond the vector the read is
  undefined (the entry after the last is the null pointer, on which \<open>strlen\<close> is
  undefined). The \<open>size_t\<close> of \<open>strlen\<close> is converted to the 32-bit parameter.
\<close>

definition SKIP_getArgN :: "u32 \<Rightarrow> state \<Rightarrow> byte list outcome" where
  "SKIP_getArgN n st =
     (let n = n + 1 in
      if unat n < length (argv st)
      then (case strlen (argv st ! unat n) of
              None \<Rightarrow> Undefined
            | Some len \<Rightarrow> Returns (sk_string_create (argv st ! unat n) (of_nat len)) st)
      else Undefined)"

text \<open>
  \<open>print\<close>, lines 84 to 91. A null pointer from \<open>malloc\<close> is written through by
  \<open>buffer[size] = 0\<close>: undefined behaviour.
\<close>

definition print :: "descr \<Rightarrow> byte list \<Rightarrow> state \<Rightarrow> unit outcome" where
  "print d str st =
     (let sz = unat (SKIP_String_byteSize str) in
      case malloc (sz + 1) (cheap st) of
        None \<Rightarrow> Undefined
      | Some (p, buffer, h) \<Rightarrow>
          let st1 = st\<lparr>cheap := h\<rparr>;
              buffer = memcpy buffer str sz;
              buffer = buffer[sz := 0];
              st2 = stream_upd d (fprintf_s (stream_of d st1) buffer) st1
          in (case free p (cheap st2) of
                None \<Rightarrow> Undefined
              | Some h' \<Rightarrow> Returns () (st2\<lparr>cheap := h'\<rparr>)))"

definition SKIP_print_raw :: "byte list \<Rightarrow> state \<Rightarrow> unit outcome" where
  "SKIP_print_raw str st = print Stdout str st"

definition print_string :: "byte list \<Rightarrow> state \<Rightarrow> unit outcome" where
  "print_string str st =
     (case print Stdout str st of
        Returns u st1 \<Rightarrow> Returns () (st1\<lparr>stdout := fwrite (stdout st1) [0x0A]\<rparr>)
      | Throws x st1 \<Rightarrow> Throws x st1
      | Undefined \<Rightarrow> Undefined)"

definition SKIP_print_error :: "byte list \<Rightarrow> state \<Rightarrow> unit outcome" where
  "SKIP_print_error str st =
     (case print Stderr str st of
        Returns u st1 \<Rightarrow> Returns () (st1\<lparr>stderr := fwrite (stderr st1) [0x0A]\<rparr>)
      | Throws x st1 \<Rightarrow> Throws x st1
      | Undefined \<Rightarrow> Undefined)"

text \<open>What a call returned, and the state in which it ended.\<close>

fun returned :: "'a outcome \<Rightarrow> 'a option" where
  "returned (Returns v st) = Some v"
| "returned (Throws x st) = None"
| "returned Undefined = None"

fun final :: "'a outcome \<Rightarrow> state option" where
  "final (Returns v st) = Some st"
| "final (Throws x st) = Some st"
| "final Undefined = None"

text \<open>Two platforms, which differ in the signedness of plain \<open>char\<close>.\<close>

definition x86_64 :: "ptr \<Rightarrow> env" where
  "x86_64 eof = \<lparr>char_signed = True, end_of_file = eof\<rparr>"

definition aarch64_linux :: "ptr \<Rightarrow> env" where
  "aarch64_linux eof = \<lparr>char_signed = False, end_of_file = eof\<rparr>"

subsection \<open>The compiled program\<close>

text \<open>
  The compiled layer reaches the state of this file through the entry points only:
  \<open>argc\<close> and \<open>argv\<close> are static, the thread-local variables are touched by no
  other translation unit. So a piece of compiled code is, for this layer, the calls
  that it makes, each on some thread. A call that leaves by an exception comes back to
  the compiled code, which goes on; after a call whose behaviour is undefined there is
  no state to speak of.
\<close>

datatype call =
    Print_char u32
  | Throw ptr
  | Read_line_fill
  | Read_line_get u32
  | GetExn
  | SaveExn ptr
  | Free_size nat size_t
  | GetArgc
  | GetArgN u32
  | Print_raw "byte list"
  | Print_string "byte list"
  | Print_error "byte list"

datatype val = Unit | U32 u32 | Ptr ptr | Str "byte list"

fun returning :: "('a \<Rightarrow> val) \<Rightarrow> 'a outcome \<Rightarrow> val outcome" where
  "returning f (Returns v st) = Returns (f v) st"
| "returning f (Throws x st) = Throws x st"
| "returning f Undefined = Undefined"

fun exec :: "env \<Rightarrow> tid \<Rightarrow> call \<Rightarrow> state \<Rightarrow> val outcome" where
  "exec e t (Print_char x) st = Returns Unit (SKIP_print_char x st)"
| "exec e t (Throw exc) st = SKIP_throw exc st"
| "exec e t Read_line_fill st = returning U32 (SKIP_read_line_fill e t st)"
| "exec e t (Read_line_get i) st = returning U32 (SKIP_read_line_get e t i st)"
| "exec e t GetExn st = Returns (Ptr (SKIP_getExn t st)) st"
| "exec e t (SaveExn x) st = Returns Unit (SKIP_saveExn t x st)"
| "exec e t (Free_size p sz) st = returning (\<lambda>u. Unit) (free_size p sz st)"
| "exec e t GetArgc st = Returns (U32 (SKIP_getArgc st)) st"
| "exec e t (GetArgN n) st = returning Str (SKIP_getArgN n st)"
| "exec e t (Print_raw str) st = returning (\<lambda>u. Unit) (SKIP_print_raw str st)"
| "exec e t (Print_string str) st = returning (\<lambda>u. Unit) (print_string str st)"
| "exec e t (Print_error str) st = returning (\<lambda>u. Unit) (SKIP_print_error str st)"

type_synonym program = "(tid \<times> call) list"

fun run :: "env \<Rightarrow> program \<Rightarrow> state \<Rightarrow> state option" where
  "run e [] st = Some st"
| "run e ((t, c) # cs) st =
     (case exec e t c st of
        Returns v st' \<Rightarrow> run e cs st'
      | Throws x st' \<Rightarrow> run e cs st'
      | Undefined \<Rightarrow> None)"

text \<open>
  Modelled from the spec: \<open>SKIP_initializeSkip\<close> and \<open>skip_main\<close>, the
  initialization operation and the entry point of the compiled layer, are only
  declared in the source. They take no argument and return nothing; \<open>main\<close> is
  given the program that each of them is.
\<close>

definition main :: "env \<Rightarrow> int \<Rightarrow> byte list list \<Rightarrow> program \<Rightarrow> program \<Rightarrow> state \<Rightarrow> state option" where
  "main e pargc pargv SKIP_initializeSkip skip_main st =
     (let st = st\<lparr>argc := pargc\<rparr>;
          st = st\<lparr>argv := pargv\<rparr>
      in case run e SKIP_initializeSkip st of
           None \<Rightarrow> None
         | Some st \<Rightarrow> run e skip_main st)"

section \<open>Properties\<close>

subsection \<open>Reading a line\<close>

lemma getline_loop_line:
  "0x0A \<notin> set l \<Longrightarrow> getline_loop (l @ 0x0A # r) str n = (str @ l, r, Suc (n + length l), False)"
  by (induction l arbitrary: str n) auto

lemma getline_loop_last:
  "0x0A \<notin> set l \<Longrightarrow> getline_loop l str n = (str @ l, [], n + length l, True)"
  by (induction l arbitrary: str n) auto

lemma getline_not_good:
  "\<not> good is \<Longrightarrow> getline is str = (is\<lparr>failbit := True\<rparr>, str)"
  by (simp add: getline_def)

lemma getline_at_eof:
  "good is \<Longrightarrow> pending is = [] \<Longrightarrow> getline is str = (is\<lparr>pending := [], eofbit := True, failbit := True\<rparr>, [])"
  by (simp add: getline_def)

lemma getline_line:
  "good is \<Longrightarrow> pending is = l @ 0x0A # r \<Longrightarrow> 0x0A \<notin> set l \<Longrightarrow>
   getline is str = (is\<lparr>pending := r, eofbit := False, failbit := False\<rparr>, l)"
  by (simp add: getline_def getline_loop_line)

lemma getline_last:
  "good is \<Longrightarrow> pending is = l \<Longrightarrow> l \<noteq> [] \<Longrightarrow> 0x0A \<notin> set l \<Longrightarrow>
   getline is str = (is\<lparr>pending := [], eofbit := True, failbit := False\<rparr>, l)"
  by (simp add: getline_def getline_loop_last)

lemma good_startup: "good (cin (startup input))"
  by (simp add: startup_def good_def)


lemma read_line_fill_line:
  assumes "good (cin st)" "pending (cin st) = l @ 0x0A # r" "0x0A \<notin> set l"
  shows "SKIP_read_line_fill e t st =
     Returns (of_nat (length l))
       (st\<lparr>cin := (cin st)\<lparr>pending := r, eofbit := False, failbit := False\<rparr>,
            lineBuffer := (lineBuffer st)(t := l)\<rparr>)"
  using assms by (simp add: SKIP_read_line_fill_def getline_line fail_def good_def)

lemma read_line_fill_last:
  assumes "good (cin st)" "pending (cin st) = l" "l \<noteq> []" "0x0A \<notin> set l"
  shows "SKIP_read_line_fill e t st =
     Returns (of_nat (length l))
       (st\<lparr>cin := (cin st)\<lparr>pending := [], eofbit := True, failbit := False\<rparr>,
            lineBuffer := (lineBuffer st)(t := l)\<rparr>)"
  using assms by (simp add: SKIP_read_line_fill_def getline_last fail_def good_def)

lemma read_line_get_in_range:
  "unat i < length (lineBuffer st t) \<Longrightarrow>
   SKIP_read_line_get e t i st = Returns (char_to_uint32 e (lineBuffer st t ! unat i)) st"
  by (simp add: SKIP_read_line_get_def)

lemma char_to_uint32_unsigned: "\<not> char_signed e \<Longrightarrow> char_to_uint32 e c = ucast c"
  by (simp add: char_to_uint32_def)

lemma scast_low_byte:
  assumes "(c :: byte) < 128"
  shows "(scast c :: u32) = ucast c"
proof -
  from assms have "uint c < 128"
    by (simp add: word_less_def)
  then have "sint c = uint c"
    by (simp add: sint_uint signed_take_bit_eq_if_positive take_bit_eq_mod bit_iff_odd)
  then have "(word_of_int (sint c) :: u32) = word_of_int (uint c)"
    by simp
  then show ?thesis by simp
qed

lemma scast_high_byte:
  assumes "(c :: byte) \<ge> 128"
  shows "unat (scast c :: u32) = 2 ^ 32 - 256 + unat c"
proof -
  from assms have u: "128 \<le> uint c"
    by (simp add: word_le_def)
  have lt: "uint c < 256"
    using uint_bounded [of c] by simp
  have "bit (uint c) 7"
    using u lt by (simp add: bit_iff_odd) presburger
  then have s: "sint c = uint c - 256"
    using u lt by (simp add: sint_uint signed_take_bit_eq_take_bit_minus take_bit_eq_mod)
  have "uint (word_of_int (sint c) :: u32) = (uint c - 256) mod 2 ^ 32"
    unfolding s by (simp only: uint_word_of_int) simp
  also have "\<dots> = (uint c - 256 + 2 ^ 32) mod 2 ^ 32"
    by (simp only: mod_add_self2)
  also have "\<dots> = 2 ^ 32 - 256 + uint c"
    using u lt by simp
  finally have "int (unat (scast c :: u32)) = int (2 ^ 32 - 256 + unat c)"
    by simp
  then show ?thesis by (rule int_int_eq [THEN iffD1])
qed

text \<open>
  Where plain \<open>char\<close> is unsigned, and for every byte below 128, \<open>SKIP_read_line_get\<close>
  returns the byte. Where plain \<open>char\<close> is signed, a byte \<open>c\<close> from 128 on comes back
  as \<open>2 ^ 32 - 256 + c\<close>.
\<close>

lemma read_line_get_byte:
  assumes "unat i < length (lineBuffer st t)"
      and "\<not> char_signed e \<or> lineBuffer st t ! unat i < 128"
  shows "SKIP_read_line_get e t i st = Returns (ucast (lineBuffer st t ! unat i)) st"
  using assms
  by (auto simp: read_line_get_in_range char_to_uint32_def scast_low_byte)

lemma read_line_get_signed_high:
  assumes "unat i < length (lineBuffer st t)"
      and "char_signed e"
      and "128 \<le> lineBuffer st t ! unat i"
  shows "\<exists>v. SKIP_read_line_get e t i st = Returns v st
              \<and> unat v = 2 ^ 32 - 256 + unat (lineBuffer st t ! unat i)"
  using assms
  by (simp add: read_line_get_in_range char_to_uint32_def scast_high_byte)

text \<open>
  C2. When standard input is at end of stream (no byte is left) or in a fault state
  (the stream is not good), \<open>SKIP_read_line_fill\<close> returns no count: it leaves by the
  exception that carries the end-of-file value of the compiled layer. A last line that
  end of file cuts short is still a line, see \<open>read_line_fill_last\<close>.
\<close>

theorem read_line_fill_raises:
  assumes "\<not> good (cin st) \<or> pending (cin st) = []"
  shows "\<exists>st'. SKIP_read_line_fill e t st = Throws (end_of_file e) st'
           \<and> returned (SKIP_read_line_fill e t st) = None"
proof (cases "good (cin st)")
  case True
  with assms have "pending (cin st) = []"
    by simp
  with True show ?thesis
    by (simp add: SKIP_read_line_fill_def getline_at_eof fail_def
        SKIP_throw_EndOfFile_def SKIP_throw_def)
next
  case False
  then show ?thesis
    by (simp add: SKIP_read_line_fill_def getline_not_good fail_def
        SKIP_throw_EndOfFile_def SKIP_throw_def)
qed

text \<open>On an empty standard input the first call raises.\<close>

theorem read_line_fill_raises_witness:
  "\<exists>st'. SKIP_read_line_fill (x86_64 7) 0 (startup []) = Throws 7 st'
      \<and> returned (SKIP_read_line_fill (x86_64 7) 0 (startup [])) = None"
  using read_line_fill_raises [of "startup []" "x86_64 7" 0]
  by (simp add: startup_def x86_64_def)

text \<open>
  Against C3 as stated: on a line of \<open>2 ^ 32\<close> bytes the call returns 0, since the
  \<open>size_t\<close> of \<open>lineBuffer.size()\<close> is converted to the 32-bit return type.
\<close>

theorem read_line_fill_wraps_counterexample:
  "returned (SKIP_read_line_fill (x86_64 7) 0 (startup (replicate (2 ^ 32) 0x61 @ [0x0A]))) = Some 0
   \<and> map_option (\<lambda>s. length (lineBuffer s 0))
        (final (SKIP_read_line_fill (x86_64 7) 0 (startup (replicate (2 ^ 32) 0x61 @ [0x0A]))))
      = Some (2 ^ 32)"
proof -
  have "pending (cin (startup (replicate (2 ^ 32) 0x61 @ [0x0A]))) = replicate (2 ^ 32) 0x61 @ 0x0A # []"
    by (simp add: startup_def)
  moreover have "(0x0A :: byte) \<notin> set (replicate (2 ^ 32) 0x61)"
    by simp
  ultimately show ?thesis
    using read_line_fill_line [OF good_startup,
        of "replicate (2 ^ 32) 0x61 @ [0x0A]" "replicate (2 ^ 32) 0x61" "[]" "x86_64 7" 0]
    by simp
qed

text \<open>
  C3, amended. On a good stream whose input starts with a line \<open>l\<close> and its
  terminator, \<open>SKIP_read_line_fill\<close> returns the number of bytes of \<open>l\<close> modulo
  \<open>2 ^ 32\<close>, which is that number for a line shorter than \<open>2 ^ 32\<close> bytes; the line
  buffer of the calling thread then holds \<open>l\<close> whatever it held before, and the input
  goes on after the terminator.
\<close>

theorem read_line_fill_line_count:
  assumes "good (cin st)" and "pending (cin st) = l @ 0x0A # r" and "0x0A \<notin> set l"
  shows "SKIP_read_line_fill e t st =
           Returns (of_nat (length l))
             (st\<lparr>cin := (cin st)\<lparr>pending := r, eofbit := False, failbit := False\<rparr>,
                  lineBuffer := (lineBuffer st)(t := l)\<rparr>)
         \<and> unat (of_nat (length l) :: u32) = length l mod 2 ^ 32
         \<and> (length l < 2 ^ 32 \<longrightarrow> unat (of_nat (length l) :: u32) = length l)"
  using assms by (simp add: read_line_fill_line unat_of_nat)

text \<open>
  On the two lines hello and world, the first call returns 5 and holds hello, the
  second returns 5 and holds world.
\<close>

theorem read_line_fill_line_count_witness:
  "\<exists>s1 s2. SKIP_read_line_fill (x86_64 7) 0 (startup (bytes ''hello'' @ 0x0A # bytes ''world'' @ [0x0A]))
              = Returns 5 s1
         \<and> lineBuffer s1 0 = bytes ''hello''
         \<and> SKIP_read_line_fill (x86_64 7) 0 s1 = Returns 5 s2
         \<and> lineBuffer s2 0 = bytes ''world''"
proof -
  let ?in = "bytes ''hello'' @ 0x0A # bytes ''world'' @ [0x0A]"
  let ?s0 = "startup ?in"
  let ?s1 = "?s0\<lparr>cin := (cin ?s0)\<lparr>pending := bytes ''world'' @ [0x0A], eofbit := False, failbit := False\<rparr>,
                  lineBuffer := (lineBuffer ?s0)(0 := bytes ''hello'')\<rparr>"
  let ?s2 = "?s1\<lparr>cin := (cin ?s1)\<lparr>pending := [], eofbit := False, failbit := False\<rparr>,
                  lineBuffer := (lineBuffer ?s1)(0 := bytes ''world'')\<rparr>"
  have 1: "SKIP_read_line_fill (x86_64 7) 0 ?s0 = Returns 5 ?s1"
    using read_line_fill_line_count [of ?s0 "bytes ''hello''" "bytes ''world'' @ [0x0A]" "x86_64 7" 0]
    by (simp add: good_startup) (simp add: startup_def bytes_def)
  have 2: "SKIP_read_line_fill (x86_64 7) 0 ?s1 = Returns 5 ?s2"
    using read_line_fill_line_count [of ?s1 "bytes ''world''" "[]" "x86_64 7" 0]
    by (simp add: good_def) (simp add: startup_def bytes_def)
  from 1 2 show ?thesis
    by (intro exI [of _ ?s1] exI [of _ ?s2]) simp
qed

text \<open>
  C4. The claim fails where plain \<open>char\<close> is signed. On the input bytes
  C3 A9 0A (a letter outside ASCII in UTF-8, then the newline), \<open>SKIP_read_line_fill\<close> returns 2, and \<open>SKIP_read_line_get\<close> at
  index 0 then returns FFFFFFC3 on x86-64, the sign-extended \<open>char\<close>, where the byte
  is C3; with an unsigned plain \<open>char\<close> it returns C3.
\<close>

theorem read_line_get_sign_extends:
  "SKIP_read_line_fill (x86_64 7) 0 (startup [0xC3, 0xA9, 0x0A]) =
     Returns 2 ((startup [])\<lparr>lineBuffer := (\<lambda>t. [])(0 := [0xC3, 0xA9])\<rparr>)
   \<and> SKIP_read_line_get (x86_64 7) 0 0 ((startup [])\<lparr>lineBuffer := (\<lambda>t. [])(0 := [0xC3, 0xA9])\<rparr>) =
     Returns 0xFFFFFFC3 ((startup [])\<lparr>lineBuffer := (\<lambda>t. [])(0 := [0xC3, 0xA9])\<rparr>)
   \<and> SKIP_read_line_get (aarch64_linux 7) 0 0 ((startup [])\<lparr>lineBuffer := (\<lambda>t. [])(0 := [0xC3, 0xA9])\<rparr>) =
     Returns 0xC3 ((startup [])\<lparr>lineBuffer := (\<lambda>t. [])(0 := [0xC3, 0xA9])\<rparr>)"
proof -
  have "SKIP_read_line_fill (x86_64 7) 0 (startup [0xC3, 0xA9, 0x0A]) =
     Returns 2 ((startup [])\<lparr>lineBuffer := (\<lambda>t. [])(0 := [0xC3, 0xA9])\<rparr>)"
    using read_line_fill_line [OF good_startup, of "[0xC3, 0xA9, 0x0A]" "[0xC3, 0xA9]" "[]" "x86_64 7" 0]
    by (simp add: startup_def)
  then show ?thesis
    by (simp add: SKIP_read_line_get_def char_to_uint32_def x86_64_def aarch64_linux_def startup_def)
qed

subsection \<open>Marshalling and printing\<close>

lemma fresh_not_live: "fresh h \<notin> fst ` set (blocks h)"
proof -
  have "\<And>bs (b :: nat \<times> nat). b \<in> set bs \<Longrightarrow> fst b \<le> foldr max (map fst bs) 0"
  proof -
    fix bs :: "(nat \<times> nat) list" and b
    show "b \<in> set bs \<Longrightarrow> fst b \<le> foldr max (map fst bs) 0"
      by (induction bs) auto
  qed
  then show ?thesis by (fastforce simp: fresh_def)
qed

lemma filter_fresh: "filter (\<lambda>b. fst b \<noteq> fresh h) (blocks h) = blocks h"
  using fresh_not_live [of h] by (force simp: filter_id_conv)

lemma free_malloc:
  assumes "malloc n h = Some (p, buf, h')"
  shows "free p h' = Some h" and "buf = replicate n (junk h)"
proof -
  from assms have n: "n \<le> avail h" and p: "p = fresh h" and buf: "buf = replicate n (junk h)"
    and h': "h' = h\<lparr>blocks := (fresh h, n) # blocks h, avail := avail h - n\<rparr>"
    by (auto simp: malloc_def split: if_splits)
  have "p \<noteq> 0" by (simp add: p fresh_def)
  then show "free p h' = Some h"
    using n by (simp add: free_def p h' filter_fresh)
  show "buf = replicate n (junk h)" by (rule buf)
qed

lemma marshalled:
  assumes "n \<le> length str"
  shows "(memcpy (replicate (Suc n) j) str n)[n := 0] = take n str @ [0]"
proof -
  have d: "drop n (replicate (Suc n) j) = [j]"
    unfolding drop_replicate by simp
  have l: "length (take n str) = n"
    using assms by simp
  show ?thesis
    unfolding memcpy_def d using l by (simp add: list_update_append)
qed

lemma byteSize_le: "unat (SKIP_String_byteSize str) \<le> length str"
  by (simp add: SKIP_String_byteSize_def unat_of_nat)

lemma byteSize_exact: "length str < 2 ^ 32 \<Longrightarrow> unat (SKIP_String_byteSize str) = length str"
  by (simp add: SKIP_String_byteSize_def unat_of_nat)

lemma takeWhile_terminated:
  "takeWhile (\<lambda>c. c \<noteq> 0) (s @ [0 :: byte]) = takeWhile (\<lambda>c. c \<noteq> 0) s"
  by (induction s) auto

lemma print_eq:
  "print d str st =
     (if unat (SKIP_String_byteSize str) + 1 \<le> avail (cheap st)
      then Returns () (stream_upd d (fwrite (stream_of d st)
             (takeWhile (\<lambda>c. c \<noteq> 0) (take (unat (SKIP_String_byteSize str)) str))) st)
      else Undefined)"
proof (cases "malloc (unat (SKIP_String_byteSize str) + 1) (cheap st)")
  case None
  then show ?thesis by (simp add: print_def malloc_def split: if_splits)
next
  case (Some r)
  obtain p buf h where r: "r = (p, buf, h)" by (cases r)
  let ?n = "unat (SKIP_String_byteSize str)"
  from Some r have fr: "free p h = Some (cheap st)" and buf: "buf = replicate (Suc ?n) (junk (cheap st))"
    using free_malloc [of "?n + 1" "cheap st" p buf h] by simp_all
  have m: "(memcpy buf str ?n)[?n := 0] = take ?n str @ [0]"
    unfolding buf by (rule marshalled) (rule byteSize_le)
  from Some have le: "?n + 1 \<le> avail (cheap st)"
    by (simp add: malloc_def split: if_splits)
  show ?thesis
    using Some r fr le
    by (cases d) (simp_all add: print_def Let_def m fprintf_s_def
        takeWhile_terminated stream_upd_def stream_of_def)
qed


lemma cheap_stream_upd: "cheap (stream_upd d f st) = cheap st"
  by (cases d) (simp_all add: stream_upd_def)

text \<open>
  C10. On a standard output that takes the write, \<open>SKIP_print_char x\<close> appends one
  byte and changes nothing else; the byte is \<open>x\<close> modulo 256, also for \<open>x\<close> from 256 on.
\<close>

theorem print_char_low_byte:
  assumes "\<not> failing (stdout st)"
  shows "SKIP_print_char x st = st\<lparr>stdout := (stdout st)\<lparr>written := written (stdout st) @ [ucast x]\<rparr>\<rparr>
         \<and> unat (ucast x :: byte) = unat x mod 256"
  using assms by (simp add: SKIP_print_char_def fprintf_c_def fwrite_def unsigned_ucast_eq take_bit_eq_mod)

theorem print_char_low_byte_witness:
  "\<not> failing (stdout (startup []))
   \<and> written (stdout (SKIP_print_char 0x20AC (startup []))) = [0xAC]
   \<and> unat (ucast (0x20AC :: u32) :: byte) = unat (0x20AC :: u32) mod 256"
  using print_char_low_byte [of "startup []" "0x20AC"] by (simp add: startup_def)

text \<open>
  What the two routines write. For a runtime string \<open>str\<close> (its length fits 32
  bits), when \<open>malloc\<close> gives the buffer and standard output takes the write, the
  bytes of \<open>str\<close> that come before its first zero byte are appended: the buffer holds
  every byte of \<open>str\<close> and the terminator (\<open>marshalled\<close>), and \<open>fprintf\<close> with "%s"
  reads it as a C string. A string with no zero byte is written whole.
\<close>

lemma print_raw_outcome:
  assumes "length str < 2 ^ 32"
      and "length str + 1 \<le> avail (cheap st)"
      and "\<not> failing (stdout st)"
  shows "SKIP_print_raw str st =
           Returns () (st\<lparr>stdout := (stdout st)\<lparr>written := written (stdout st) @ takeWhile (\<lambda>c. c \<noteq> 0) str\<rparr>\<rparr>)"
  using assms
  by (simp add: SKIP_print_raw_def print_eq byteSize_exact stream_upd_def stream_of_def fwrite_def)

lemma print_raw_without_zero:
  assumes "length str < 2 ^ 32"
      and "length str + 1 \<le> avail (cheap st)"
      and "\<not> failing (stdout st)"
      and "0 \<notin> set str"
  shows "SKIP_print_raw str st =
           Returns () (st\<lparr>stdout := (stdout st)\<lparr>written := written (stdout st) @ str\<rparr>\<rparr>)"
proof -
  from assms(4) have "takeWhile (\<lambda>c. c \<noteq> 0) str = str"
    by (induction str) auto
  with print_raw_outcome [OF assms(1-3)] show ?thesis
    by simp
qed

lemma print_string_outcome:
  assumes "length str < 2 ^ 32"
      and "length str + 1 \<le> avail (cheap st)"
      and "\<not> failing (stdout st)"
  shows "print_string str st =
           Returns () (st\<lparr>stdout := (stdout st)\<lparr>written := written (stdout st) @ takeWhile (\<lambda>c. c \<noteq> 0) str @ [0x0A]\<rparr>\<rparr>)"
  using assms
  by (simp add: print_string_def print_eq byteSize_exact stream_upd_def stream_of_def fwrite_def)

lemma print_string_without_zero:
  assumes "length str < 2 ^ 32"
      and "length str + 1 \<le> avail (cheap st)"
      and "\<not> failing (stdout st)"
      and "0 \<notin> set str"
  shows "print_string str st =
           Returns () (st\<lparr>stdout := (stdout st)\<lparr>written := written (stdout st) @ str @ [0x0A]\<rparr>\<rparr>)"
proof -
  from assms(4) have "takeWhile (\<lambda>c. c \<noteq> 0) str = str"
    by (induction str) auto
  with print_string_outcome [OF assms(1-3)] show ?thesis
    by simp
qed

lemma print_string_empty:
  assumes "1 \<le> avail (cheap st)" and "\<not> failing (stdout st)"
  shows "print_string [] st =
           Returns () (st\<lparr>stdout := (stdout st)\<lparr>written := written (stdout st) @ [0x0A]\<rparr>\<rparr>)"
  using print_string_without_zero [of "[]" st] assms by simp

text \<open>
  C6. The claim fails on a string that holds a zero byte. The runtime string of the
  three bytes 61 00 62 has byte size 3; \<open>SKIP_print_raw\<close> returns with the one byte
  61 on standard output. All three bytes were copied into the buffer; \<open>fprintf\<close> with
  "%s" at line 89 stops at the zero byte and drops what follows.
\<close>

theorem print_raw_drops_after_zero:
  "SKIP_String_byteSize [0x61, 0, 0x62] = 3
   \<and> SKIP_print_raw [0x61, 0, 0x62] (startup []) =
       Returns () ((startup [])\<lparr>stdout := \<lparr>written = [0x61], failing = False\<rparr>\<rparr>)"
  by (simp add: SKIP_print_raw_def print_eq SKIP_String_byteSize_def startup_def
      stream_upd_def stream_of_def fwrite_def)

text \<open>
  C7. The claim fails on the same string, through the same call of \<open>print\<close>:
  \<open>print_string\<close> on the bytes 61 00 62 returns with 61 and the newline on standard
  output, the bytes 00 62 dropped.
\<close>

theorem print_string_drops_after_zero:
  "SKIP_String_byteSize [0x61, 0, 0x62] = 3
   \<and> print_string [0x61, 0, 0x62] (startup []) =
       Returns () ((startup [])\<lparr>stdout := \<lparr>written = [0x61, 0x0A], failing = False\<rparr>\<rparr>)"
  by (simp add: print_string_def print_eq SKIP_String_byteSize_def startup_def
      stream_upd_def stream_of_def fwrite_def)

subsection \<open>What a call leaves untouched\<close>

lemma final_returning: "final (returning f out) = final out"
  by (cases out) simp_all

lemma final_print:
  "final (print d str st) = Some st' \<Longrightarrow>
   argc st' = argc st \<and> argv st' = argv st \<and> exn st' = exn st \<and> cheap st' = cheap st"
  by (cases d) (auto simp: print_eq stream_upd_def split: if_splits)

lemma final_read_line_fill:
  "final (SKIP_read_line_fill e t st) = Some st' \<Longrightarrow>
   argc st' = argc st \<and> argv st' = argv st \<and> exn st' = exn st \<and> cheap st' = cheap st"
  by (auto simp: SKIP_read_line_fill_def SKIP_throw_EndOfFile_def SKIP_throw_def Let_def
      split: prod.splits if_splits)

lemma final_read_line_get:
  "final (SKIP_read_line_get e t i st) = Some st' \<Longrightarrow> st' = st"
  by (auto simp: SKIP_read_line_get_def Let_def split: if_splits)

lemma final_getArgN:
  "final (SKIP_getArgN n st) = Some st' \<Longrightarrow> st' = st"
  by (auto simp: SKIP_getArgN_def Let_def split: if_splits option.splits)

lemma final_free_size:
  "final (free_size p sz st) = Some st' \<Longrightarrow>
   argc st' = argc st \<and> argv st' = argv st \<and> exn st' = exn st"
  by (auto simp: free_size_def split: option.splits)

lemma final_print_string:
  "final (print_string str st) = Some st' \<Longrightarrow>
   argc st' = argc st \<and> argv st' = argv st \<and> exn st' = exn st \<and> cheap st' = cheap st"
  by (auto simp: print_string_def print_eq stream_upd_def split: if_splits)

lemma final_print_error:
  "final (SKIP_print_error str st) = Some st' \<Longrightarrow>
   argc st' = argc st \<and> argv st' = argv st \<and> exn st' = exn st \<and> cheap st' = cheap st"
  by (auto simp: SKIP_print_error_def print_eq stream_upd_def split: if_splits)

lemma exec_frame:
  assumes "final (exec e t c st) = Some st'"
  shows "argc st' = argc st \<and> argv st' = argv st
         \<and> ((t = T \<longrightarrow> (\<forall>x. c \<noteq> SaveExn x)) \<longrightarrow> exn st' T = exn st T)"
proof (cases c)
  case (Print_char x)
  with assms show ?thesis by (auto simp: SKIP_print_char_def)
next
  case (Throw x)
  with assms show ?thesis by (auto simp: SKIP_throw_def)
next
  case Read_line_fill
  with assms show ?thesis using final_read_line_fill [of e t st st'] by (simp add: final_returning)
next
  case (Read_line_get i)
  with assms show ?thesis using final_read_line_get [of e t i st st'] by (simp add: final_returning)
next
  case GetExn
  with assms show ?thesis by auto
next
  case (SaveExn x)
  with assms show ?thesis by (auto simp: SKIP_saveExn_def)
next
  case (Free_size p sz)
  with assms show ?thesis using final_free_size [of p sz st st'] by (simp add: final_returning)
next
  case GetArgc
  with assms show ?thesis by auto
next
  case (GetArgN n)
  with assms show ?thesis using final_getArgN [of n st st'] by (simp add: final_returning)
next
  case (Print_raw str)
  with assms show ?thesis using final_print [of Stdout str st st']
    by (simp add: final_returning SKIP_print_raw_def)
next
  case (Print_string str)
  with assms show ?thesis using final_print_string [of str st st'] by (simp add: final_returning)
next
  case (Print_error str)
  with assms show ?thesis using final_print_error [of str st st'] by (simp add: final_returning)
qed

lemma run_step:
  "run e ((t, c) # cs) st = (case final (exec e t c st) of None \<Rightarrow> None | Some st' \<Rightarrow> run e cs st')"
  by (cases "exec e t c st") simp_all

lemma run_append:
  "run e (cs @ ds) st = (case run e cs st of None \<Rightarrow> None | Some st' \<Rightarrow> run e ds st')"
proof (induction cs arbitrary: st)
  case Nil
  show ?case by simp
next
  case (Cons a cs)
  obtain t c where a: "a = (t, c)" by (cases a)
  show ?case
    unfolding a append_Cons run_step by (simp add: Cons.IH split: option.splits)
qed

lemma run_captured:
  "run e cs st = Some st' \<Longrightarrow> argc st' = argc st \<and> argv st' = argv st"
proof (induction cs arbitrary: st)
  case Nil
  then show ?case by simp
next
  case (Cons a cs)
  obtain t c where a: "a = (t, c)" by (cases a)
  from Cons.prems obtain s1 where s1: "final (exec e t c st) = Some s1" and r: "run e cs s1 = Some st'"
    unfolding a run_step by (auto split: option.splits)
  from exec_frame [OF s1] Cons.IH [OF r] show ?case by simp
qed

lemma run_exn:
  "run e cs st = Some st' \<Longrightarrow> \<forall>(t, c) \<in> set cs. t = T \<longrightarrow> (\<forall>x. c \<noteq> SaveExn x) \<Longrightarrow>
   exn st' T = exn st T"
proof (induction cs arbitrary: st)
  case Nil
  then show ?case by simp
next
  case (Cons a cs)
  obtain t c where a: "a = (t, c)" by (cases a)
  from Cons.prems(1) obtain s1 where s1: "final (exec e t c st) = Some s1" and r: "run e cs s1 = Some st'"
    unfolding a run_step by (auto split: option.splits)
  from Cons.prems(2) have here: "t = T \<longrightarrow> (\<forall>x. c \<noteq> SaveExn x)"
    and rest: "\<forall>(t, c) \<in> set cs. t = T \<longrightarrow> (\<forall>x. c \<noteq> SaveExn x)"
    by (simp_all add: a)
  from exec_frame [OF s1, of T] here have "exn s1 T = exn st T" by simp
  with Cons.IH [OF r rest] show ?case by simp
qed

subsection \<open>The arguments of the process\<close>

lemma takeWhile_c_string: "0 \<notin> set a \<Longrightarrow> takeWhile (\<lambda>c. c \<noteq> 0) (a @ 0 # r) = (a :: byte list)"
  by (induction a) auto

lemma strlen_terminated: "0 \<notin> set a \<Longrightarrow> strlen (a @ [0]) = Some (length a)"
  by (simp add: strlen_def takeWhile_c_string)

lemma unat_succ_u32:
  assumes "n + 1 < 2 ^ 32"
  shows "unat ((of_nat n :: u32) + 1) = n + 1"
proof -
  have "unat ((of_nat n :: u32) + 1) = (unat (of_nat n :: u32) + unat (1 :: u32)) mod 2 ^ 32"
    by (simp add: unat_word_ariths)
  also have "unat (of_nat n :: u32) = n"
    using assms by (simp add: unat_of_nat)
  finally show ?thesis
    using assms by simp
qed

lemma getArgN_eq:
  assumes "argv st = map (\<lambda>a. a @ [0]) args"
      and "n + 1 < length args" and "length args < 2 ^ 31"
      and "0 \<notin> set (args ! (n + 1))" and "length (args ! (n + 1)) < 2 ^ 32"
  shows "SKIP_getArgN (of_nat n) st = Returns (args ! (n + 1)) st"
proof -
  define k where "k = n + 1"
  have "n + 1 < (2 :: nat) ^ 32"
    using assms(2,3) by simp
  then have i: "unat ((of_nat n :: u32) + 1) = k"
    unfolding k_def by (rule unat_succ_u32)
  have l: "unat (of_nat (length (args ! k)) :: u32) = length (args ! k)"
    using assms(5) by (simp add: unat_of_nat k_def)
  have len: "k < length (argv st)"
    using assms(1,2) by (simp add: k_def)
  have a: "argv st ! k = args ! k @ [0]"
    using assms(1,2) by (simp add: k_def)
  have s: "strlen (args ! k @ [0]) = Some (length (args ! k))"
    using assms(4) by (simp add: strlen_terminated k_def)
  have "SKIP_getArgN (of_nat n) st = Returns (args ! k) st"
    unfolding SKIP_getArgN_def Let_def i
    using len by (simp add: s l sk_string_create_def a)
  then show ?thesis
    unfolding k_def .
qed

lemma getArgc_eq:
  assumes "argc st = int (length args)" and "1 \<le> length args" and "length args < 2 ^ 31"
  shows "unat (SKIP_getArgc st) = length args - 1"
proof -
  have d: "int (length args) - 1 = int (length args - 1)"
    using assms(2) by simp
  have "SKIP_getArgc st = of_int (int (length args - 1))"
    unfolding SKIP_getArgc_def assms(1) d ..
  then have "SKIP_getArgc st = of_nat (length args - 1)"
    by (simp only: of_int_of_nat_eq)
  then show ?thesis
    using assms(3) by (simp add: unat_of_nat)
qed

text \<open>
  C5. Let the process be started with the host strings \<open>args\<close>, at least one and
  fewer than \<open>2 ^ 31\<close> of them (\<open>argc\<close> is an \<open>int\<close>), each free of zero bytes
  and shorter than \<open>2 ^ 32\<close> bytes (the operating system bounds the length of an
  argument far below that), and let \<open>argc\<close> and \<open>argv\<close> hold them as \<open>main\<close>
  stored them. Then \<open>SKIP_getArgc\<close> returns \<open>length args - 1\<close>, and for every
  \<open>n\<close> below it \<open>SKIP_getArgN n\<close> returns the runtime string made of the bytes of
  entry \<open>n + 1\<close>.
\<close>

theorem arguments_without_first:
  assumes "argc st = int (length args)"
      and "argv st = map (\<lambda>a. a @ [0]) args"
      and "1 \<le> length args" and "length args < 2 ^ 31"
      and "\<forall>a \<in> set args. 0 \<notin> set a \<and> length a < 2 ^ 32"
  shows "unat (SKIP_getArgc st) = length args - 1
         \<and> (\<forall>n < unat (SKIP_getArgc st). SKIP_getArgN (of_nat n) st = Returns (args ! (n + 1)) st)"
proof -
  have c: "unat (SKIP_getArgc st) = length args - 1"
    using assms(1,3,4) by (rule getArgc_eq)
  have "SKIP_getArgN (of_nat n) st = Returns (args ! (n + 1)) st" if "n < length args - 1" for n
  proof -
    from that have n: "n + 1 < length args" by simp
    then have "args ! (n + 1) \<in> set args" by simp
    with assms(5) have "0 \<notin> set (args ! (n + 1))" "length (args ! (n + 1)) < 2 ^ 32"
      by blast+
    with assms(2) n assms(4) show ?thesis by (rule getArgN_eq)
  qed
  with c show ?thesis by simp
qed

text \<open>
  Started with prog, --flag and value, the count is 2, argument 0 is --flag and
  argument 1 is value.
\<close>

theorem arguments_without_first_witness:
  "main (x86_64 7) 3 [bytes ''prog'' @ [0], bytes ''--flag'' @ [0], bytes ''value'' @ [0]] [] [] (startup [])
     = Some ((startup [])\<lparr>argc := 3, argv := [bytes ''prog'' @ [0], bytes ''--flag'' @ [0], bytes ''value'' @ [0]]\<rparr>)
   \<and> unat (SKIP_getArgc ((startup [])\<lparr>argc := 3, argv := [bytes ''prog'' @ [0], bytes ''--flag'' @ [0], bytes ''value'' @ [0]]\<rparr>)) = 2
   \<and> SKIP_getArgN 0 ((startup [])\<lparr>argc := 3, argv := [bytes ''prog'' @ [0], bytes ''--flag'' @ [0], bytes ''value'' @ [0]]\<rparr>)
     = Returns (bytes ''--flag'') ((startup [])\<lparr>argc := 3, argv := [bytes ''prog'' @ [0], bytes ''--flag'' @ [0], bytes ''value'' @ [0]]\<rparr>)
   \<and> SKIP_getArgN 1 ((startup [])\<lparr>argc := 3, argv := [bytes ''prog'' @ [0], bytes ''--flag'' @ [0], bytes ''value'' @ [0]]\<rparr>)
     = Returns (bytes ''value'') ((startup [])\<lparr>argc := 3, argv := [bytes ''prog'' @ [0], bytes ''--flag'' @ [0], bytes ''value'' @ [0]]\<rparr>)"
proof -
  let ?args = "[bytes ''prog'', bytes ''--flag'', bytes ''value'']"
  let ?st = "(startup [])\<lparr>argc := 3, argv := [bytes ''prog'' @ [0], bytes ''--flag'' @ [0], bytes ''value'' @ [0]]\<rparr>"
  have t: "unat (SKIP_getArgc ?st) = length ?args - 1
         \<and> (\<forall>n < unat (SKIP_getArgc ?st). SKIP_getArgN (of_nat n) ?st = Returns (?args ! (n + 1)) ?st)"
    by (rule arguments_without_first) (simp_all add: bytes_def)
  then have c: "unat (SKIP_getArgc ?st) = 2"
    by simp
  from t have n: "n < unat (SKIP_getArgc ?st) \<Longrightarrow> SKIP_getArgN (of_nat n) ?st = Returns (?args ! (n + 1)) ?st" for n
    by blast
  have "SKIP_getArgN 0 ?st = Returns (bytes ''--flag'') ?st"
    using n [of 0] c by simp
  moreover have "SKIP_getArgN 1 ?st = Returns (bytes ''value'') ?st"
    using n [of 1] c by simp
  moreover have "main (x86_64 7) 3 [bytes ''prog'' @ [0], bytes ''--flag'' @ [0], bytes ''value'' @ [0]] [] [] (startup []) = Some ?st"
    by (simp add: main_def)
  ultimately show ?thesis
    using c by simp
qed

subsection \<open>The host buffer\<close>

lemma print_out_of_memory:
  "\<not> unat (SKIP_String_byteSize str) + 1 \<le> avail (cheap st) \<Longrightarrow> print d str st = Undefined"
  by (simp add: print_eq)

text \<open>
  C8. When \<open>malloc\<close> gives \<open>print\<close> its buffer, \<open>print\<close> and the three output
  routines built on it return in a state whose heap is the heap they started with:
  the buffer is no longer live. This holds for every state of the stream, a failing
  one included, since \<open>free\<close> follows \<open>fprintf\<close> unconditionally. The argument
  routine \<open>SKIP_getArgN\<close> allocates no host buffer at all. When \<open>malloc\<close> gives
  nothing there is no buffer to release, see \<open>print_out_of_memory\<close>.
\<close>

theorem host_buffer_released:
  assumes "unat (SKIP_String_byteSize str) + 1 \<le> avail (cheap st)"
  shows "map_option cheap (final (print d str st)) = Some (cheap st)
       \<and> map_option cheap (final (SKIP_print_raw str st)) = Some (cheap st)
       \<and> map_option cheap (final (print_string str st)) = Some (cheap st)
       \<and> map_option cheap (final (SKIP_print_error str st)) = Some (cheap st)
       \<and> map_option cheap (final (SKIP_getArgN n st)) \<in> {None, Some (cheap st)}"
proof -
  have p: "map_option cheap (final (print d str st)) = Some (cheap st)" for d
    using assms by (simp add: print_eq cheap_stream_upd)
  have r: "map_option cheap (final (SKIP_print_raw str st)) = Some (cheap st)"
    using p [of Stdout] by (simp only: SKIP_print_raw_def)
  have s: "map_option cheap (final (print_string str st)) = Some (cheap st)"
    using assms by (simp add: print_string_def print_eq cheap_stream_upd)
  have e: "map_option cheap (final (SKIP_print_error str st)) = Some (cheap st)"
    using assms by (simp add: SKIP_print_error_def print_eq cheap_stream_upd)
  have g: "map_option cheap (final (SKIP_getArgN n st)) \<in> {None, Some (cheap st)}"
    by (simp add: SKIP_getArgN_def Let_def split: option.splits)
  from p [of d] r s e g show ?thesis
    by (intro conjI)
qed

text \<open>On a failing standard output nothing is written, and the heap is as before.\<close>

theorem host_buffer_released_witness:
  "map_option cheap (final (print_string (bytes ''abc'') ((startup [])\<lparr>stdout := \<lparr>written = [], failing = True\<rparr>\<rparr>)))
     = Some (cheap (startup []))
   \<and> map_option stdout (final (print_string (bytes ''abc'') ((startup [])\<lparr>stdout := \<lparr>written = [], failing = True\<rparr>\<rparr>)))
     = Some \<lparr>written = [], failing = True\<rparr>"
proof -
  let ?st = "(startup [])\<lparr>stdout := \<lparr>written = [], failing = True\<rparr>\<rparr>"
  have "unat (SKIP_String_byteSize (bytes ''abc'')) + 1 \<le> avail (cheap ?st)"
    by (simp add: SKIP_String_byteSize_def bytes_def startup_def)
  from host_buffer_released [OF this, of Stdout 0]
  have "map_option cheap (final (print_string (bytes ''abc'') ?st)) = Some (cheap ?st)"
    by (rule conjunct2 [THEN conjunct2, THEN conjunct1])
  moreover have "map_option stdout (final (print_string (bytes ''abc'') ?st)) = Some \<lparr>written = [], failing = True\<rparr>"
    by (simp add: print_string_def print_eq SKIP_String_byteSize_def bytes_def startup_def
        stream_upd_def stream_of_def fwrite_def)
  ultimately show ?thesis by simp
qed

subsection \<open>The exception slot and the bootstrap\<close>

text \<open>
  C1. After \<open>SKIP_saveExn v\<close> on thread \<open>T\<close>, let the compiled code make any calls
  on any threads, none of them a \<open>SKIP_saveExn\<close> on \<open>T\<close>. Then \<open>SKIP_getExn\<close> on
  \<open>T\<close> returns \<open>v\<close> and leaves the state as it is. The calls in between may
  themselves be \<open>SKIP_getExn\<close> on \<open>T\<close>, so every one of a run of reads returns
  \<open>v\<close>.
\<close>

theorem saveExn_then_getExn:
  assumes "\<forall>(t, c) \<in> set cs. t = T \<longrightarrow> (\<forall>x. c \<noteq> SaveExn x)"
      and "run e cs (SKIP_saveExn T v st) = Some st'"
  shows "SKIP_getExn T st' = v \<and> exec e T GetExn st' = Returns (Ptr v) st'"
proof -
  from run_exn [OF assms(2) assms(1)] have "exn st' T = exn (SKIP_saveExn T v st) T" .
  then have "exn st' T = v"
    by (simp add: SKIP_saveExn_def)
  then show ?thesis
    by (simp add: SKIP_getExn_def)
qed

theorem saveExn_then_getExn_witness:
  "map_option (SKIP_getExn 0)
     (run (x86_64 7) [(0, GetExn), (1, SaveExn 5), (0, Print_char 65), (0, GetExn)]
        (SKIP_saveExn 0 9 (startup []))) = Some 9"
proof -
  let ?cs = "[(0 :: tid, GetExn), (1, SaveExn 5), (0, Print_char 65), (0, GetExn)]"
  obtain st' where r: "run (x86_64 7) ?cs (SKIP_saveExn 0 9 (startup [])) = Some st'"
    by simp
  have "\<forall>(t, c) \<in> set ?cs. t = 0 \<longrightarrow> (\<forall>x. c \<noteq> SaveExn x)"
    by simp
  from saveExn_then_getExn [OF this r] have "SKIP_getExn 0 st' = 9"
    by simp
  with r show ?thesis
    by simp
qed

text \<open>
  C9. \<open>main\<close> is: store \<open>pargc\<close> and \<open>pargv\<close>, then run the initialization of
  the compiled layer, then its entry point. In every state reached on the way, after
  any number of the calls that the initialization and the entry point make, \<open>argc\<close>
  and \<open>argv\<close> hold what \<open>main\<close> stored.
\<close>

theorem main_captures_arguments:
  "main e pargc pargv init entry st = run e (init @ entry) (st\<lparr>argc := pargc, argv := pargv\<rparr>)
   \<and> (\<forall>k s. run e (take k (init @ entry)) (st\<lparr>argc := pargc, argv := pargv\<rparr>) = Some s \<longrightarrow>
         argc s = pargc \<and> argv s = pargv)"
proof -
  have "main e pargc pargv init entry st = run e (init @ entry) (st\<lparr>argc := pargc, argv := pargv\<rparr>)"
    by (simp add: main_def run_append)
  moreover have "argc s = pargc \<and> argv s = pargv"
    if "run e (take k (init @ entry)) (st\<lparr>argc := pargc, argv := pargv\<rparr>) = Some s" for k s
    using run_captured [OF that] by simp
  ultimately show ?thesis by blast
qed

theorem main_captures_arguments_witness:
  "map_option argv
     (main (x86_64 7) 2 [bytes ''prog'' @ [0], bytes ''x'' @ [0]]
        [(0, SaveExn 1)] [(0, GetArgc), (0, Throw 3), (1, Print_char 65)] (startup []))
   = Some [bytes ''prog'' @ [0], bytes ''x'' @ [0]]
   \<and> map_option argc
     (main (x86_64 7) 2 [bytes ''prog'' @ [0], bytes ''x'' @ [0]]
        [(0, SaveExn 1)] [(0, GetArgc), (0, Throw 3), (1, Print_char 65)] (startup []))
   = Some 2"
proof -
  let ?init = "[(0 :: tid, SaveExn 1)]"
  let ?entry = "[(0 :: tid, GetArgc), (0, Throw 3), (1, Print_char 65)]"
  let ?argv = "[bytes ''prog'' @ [0], bytes ''x'' @ [0]]"
  let ?m = "main (x86_64 7) 2 ?argv ?init ?entry (startup [])"
  note t = main_captures_arguments [of "x86_64 7" 2 ?argv ?init ?entry "startup []"]
  obtain s where s: "?m = Some s"
    by (simp add: main_def SKIP_throw_def)
  with t have "run (x86_64 7) (take 4 (?init @ ?entry)) ((startup [])\<lparr>argc := 2, argv := ?argv\<rparr>) = Some s"
    by simp
  with t have "argc s = 2 \<and> argv s = ?argv"
    by blast
  with s show ?thesis
    by simp
qed

end
